theory Spec2Isabelle
  imports Complex_Main "HOL-Library.AList" "HOL-Library.Multiset" "HOL-Library.Sublist"
    "HOL-Library.Word"
begin

unbundle bit_operations_syntax

section \<open>JavaScript values read from JSON\<close>

text \<open>
  The dashboard reads request bodies and session log lines with \<^verbatim>\<open>JSON.parse\<close>. A parsed
  value is a \<open>json\<close>; an object is the list of its own properties, each key once, in
  insertion order. A JavaScript expression that may be \<^verbatim>\<open>undefined\<close> is a \<open>jsval\<close>, with
  \<open>None\<close> for \<^verbatim>\<open>undefined\<close>. Numbers are kept as their numeric value: the code only tests
  them for truthiness.
\<close>

datatype json =
    JNull
  | JBool bool
  | JNum real
  | JStr string
  | JArr "json list"
  | JObj "(string \<times> json) list"

type_synonym jsval = "json option"

text \<open>Truthiness, as \<^verbatim>\<open>!x\<close>, \<^verbatim>\<open>x || y\<close> and \<^verbatim>\<open>if (x)\<close> test it.\<close>

fun truthy :: "jsval \<Rightarrow> bool" where
  "truthy None = False"
| "truthy (Some JNull) = False"
| "truthy (Some (JBool b)) = b"
| "truthy (Some (JNum r)) = (r \<noteq> 0)"
| "truthy (Some (JStr s)) = (s \<noteq> [])"
| "truthy (Some (JArr xs)) = True"
| "truthy (Some (JObj kvs)) = True"

text \<open>
  \<open>get_prop v k\<close> is the property read \<^verbatim>\<open>v.k\<close> on a value that is not \<^verbatim>\<open>null\<close>, for the property
  names the dashboard reads (\<^verbatim>\<open>type\<close>, \<^verbatim>\<open>entry_type\<close>, \<^verbatim>\<open>data\<close>, \<^verbatim>\<open>details\<close>, \<^verbatim>\<open>message\<close>,
  \<^verbatim>\<open>timestamp\<close>, \<^verbatim>\<open>session_id\<close>, \<^verbatim>\<open>start_time\<close>, \<^verbatim>\<open>agent_worker_task\<close>, \<^verbatim>\<open>config\<close>,
  \<^verbatim>\<open>workdir\<close>): an object yields its own property, a boolean, number, string or array has
  none of them. Reading a property of \<^verbatim>\<open>null\<close> throws a TypeError; every caller below tests
  for \<open>JNull\<close> before it uses \<open>get_prop\<close> where the source reads with a plain dot.
  \<open>opt_prop v k\<close> is the optional chaining of JavaScript (a question mark before the dot).
\<close>

fun get_prop :: "json \<Rightarrow> string \<Rightarrow> jsval" where
  "get_prop (JObj kvs) k = map_of kvs k"
| "get_prop v k = None"

fun opt_prop :: "jsval \<Rightarrow> string \<Rightarrow> jsval" where
  "opt_prop None k = None"
| "opt_prop (Some JNull) k = None"
| "opt_prop (Some v) k = get_prop v k"

section \<open>Session log reader (dashboard/lib/sessions.ts)\<close>

text \<open>
  A log file is given by what \<^verbatim>\<open>fs.readFileSync\<close> makes of it: unreadable (the read throws), or
  its content as the sequence of lines left by \<^verbatim>\<open>split('\n').filter(Boolean)\<close>, each line
  being the outcome of \<^verbatim>\<open>JSON.parse\<close> on it: \<open>None\<close> when the parse throws a SyntaxError,
  \<open>Some v\<close> when it returns \<open>v\<close>.
\<close>

type_synonym line = "json option"

datatype log_file = Unreadable | Content "line list"

datatype session_status = Session_active | Session_completed | Session_error

text \<open>
  The variable \<^verbatim>\<open>error\<close> of \<^verbatim>\<open>getSessionData\<close> holds \<^verbatim>\<open>undefined\<close> (\<open>No_text\<close>), the value of
  \<^verbatim>\<open>details.message\<close> (\<open>Message\<close>), or the string \<^verbatim>\<open>JSON.stringify(details)\<close>
  (\<open>Stringified\<close>, kept symbolic: the JSON text of a value is never the empty string, so
  it is truthy).
\<close>

datatype err_text = No_text | Message json | Stringified json

fun truthy_err :: "err_text \<Rightarrow> bool" where
  "truthy_err No_text = False"
| "truthy_err (Message v) = truthy (Some v)"
| "truthy_err (Stringified d) = True"

record Session =
  id_session :: jsval
  status_session :: session_status
  startTime :: jsval
  endTime :: jsval
  messages :: "json list"
  error_session :: err_text

datatype reader_error = Read_failed | No_metadata

text \<open>
  The text assigned to \<^verbatim>\<open>error\<close>, from the value \<open>details\<close> of \<^verbatim>\<open>entry.data.details\<close>: its
  \<^verbatim>\<open>message\<close> (read by optional chaining) when that is truthy, otherwise
  \<^verbatim>\<open>JSON.stringify(details)\<close>, which is \<^verbatim>\<open>undefined\<close> when \<open>details\<close> is.
\<close>

definition error_of :: "jsval \<Rightarrow> err_text" where
  "error_of details =
     (case opt_prop details ''message'' of
        Some m \<Rightarrow> if truthy (Some m) then Message m
                  else (case details of None \<Rightarrow> No_text | Some d \<Rightarrow> Stringified d)
      | None \<Rightarrow> (case details of None \<Rightarrow> No_text | Some d \<Rightarrow> Stringified d))"

definition is_metadata :: "json \<Rightarrow> bool" where
  "is_metadata entry = (get_prop entry ''type'' = Some (JStr ''metadata''))"

definition has_entry_type :: "json \<Rightarrow> string \<Rightarrow> bool" where
  "has_entry_type entry k = (get_prop entry ''entry_type'' = Some (JStr k))"

definition is_entry :: "json \<Rightarrow> bool" where
  "is_entry entry =
     (has_entry_type entry ''message'' \<or> has_entry_type entry ''thinking''
      \<or> has_entry_type entry ''system_event'')"

text \<open>The test that \<^verbatim>\<open>entry.entry_type\<close> is \<^verbatim>\<open>'system_event'\<close> and the \<^verbatim>\<open>type\<close> of \<^verbatim>\<open>entry.data\<close>
  (read by optional chaining) is \<open>t\<close>.\<close>

definition system_event_of_type :: "string \<Rightarrow> json \<Rightarrow> bool" where
  "system_event_of_type t entry =
     (has_entry_type entry ''system_event''
      \<and> opt_prop (get_prop entry ''data'') ''type'' = Some (JStr t))"

text \<open>
  One iteration of the loop over the lines, on the loop's variables
  \<open>(messages, metadata, error)\<close>. The \<^verbatim>\<open>try\<close> block catches the SyntaxError of a
  line that does not parse and the TypeError of \<^verbatim>\<open>entry.type\<close> on a line that is \<^verbatim>\<open>null\<close>;
  both leave the variables as they are. After \<^verbatim>\<open>messages.push(entry)\<close> nothing throws:
  when the type of \<^verbatim>\<open>entry.data\<close> is \<^verbatim>\<open>'error'\<close>, \<^verbatim>\<open>entry.data\<close> is an object.
\<close>

fun scan_line :: "json list \<times> jsval \<times> err_text \<Rightarrow> line \<Rightarrow> json list \<times> jsval \<times> err_text" where
  "scan_line (msgs, metadata, err) None = (msgs, metadata, err)"
| "scan_line (msgs, metadata, err) (Some JNull) = (msgs, metadata, err)"
| "scan_line (msgs, metadata, err) (Some entry) =
     (if is_metadata entry then (msgs, Some entry, err)
      else if is_entry entry then
        (msgs @ [entry], metadata,
         if system_event_of_type ''error'' entry
         then error_of (opt_prop (get_prop entry ''data'') ''details'')
         else err)
      else (msgs, metadata, err))"

definition derive_status :: "err_text \<Rightarrow> json list \<Rightarrow> session_status" where
  "derive_status err msgs =
     (if truthy_err err then Session_error
      else if list_ex (system_event_of_type ''completed'') msgs then Session_completed
      else Session_active)"

fun getSessionData :: "log_file \<Rightarrow> reader_error + Session" where
  "getSessionData Unreadable = Inl Read_failed"
| "getSessionData (Content lines) =
     (case foldl scan_line ([], None, No_text) lines of
        (msgs, metadata, err) \<Rightarrow>
          (case metadata of
             None \<Rightarrow> Inl No_metadata
           | Some m \<Rightarrow>
               if \<not> truthy (Some m) then Inl No_metadata
               else Inr \<lparr> id_session = get_prop m ''session_id'',
                          status_session = derive_status err msgs,
                          startTime = get_prop m ''start_time'',
                          endTime = (if msgs \<noteq> [] then get_prop (last msgs) ''timestamp'' else None),
                          messages = msgs,
                          error_session = err \<rparr>))"

text \<open>
  The logs directory as \<^verbatim>\<open>getAllSessions\<close> sees it: missing (\<^verbatim>\<open>fs.existsSync\<close> is false),
  unlistable (\<^verbatim>\<open>fs.readdirSync\<close> throws, caught by the outer \<^verbatim>\<open>try\<close>), or the listing of its
  entries in the order \<^verbatim>\<open>readdirSync\<close> returns them, each with its file.
\<close>

datatype logs_dir = Missing | Unlistable | Listing "(string \<times> log_file) list"











section \<open>Process liveness probe and job store (app/api/jobs)\<close>

text \<open>
  The operating system's process table, as \<^verbatim>\<open>process.kill\<close> observes it: a process id that
  is absent gives \<^verbatim>\<open>ESRCH\<close>, one owned by another user gives \<^verbatim>\<open>EPERM\<close> (for the null signal
  as for a real one), and otherwise the signal is delivered. Both errors are thrown as
  exceptions by \<^verbatim>\<open>process.kill\<close>.
\<close>

datatype owner = Own | Foreign

type_synonym process_table = "(nat \<times> owner) list"

datatype signal = Signal_0 | SIGTERM

datatype kill_outcome = Delivered | ESRCH | EPERM

definition process_kill :: "process_table \<Rightarrow> nat \<Rightarrow> signal \<Rightarrow> kill_outcome" where
  "process_kill tbl p sig =
     (case map_of tbl p of
        None \<Rightarrow> ESRCH
      | Some Own \<Rightarrow> Delivered
      | Some Foreign \<Rightarrow> EPERM)"

text \<open>\<^verbatim>\<open>try { process.kill(pid, 0); return true; } catch (e) { return false; }\<close>\<close>

definition isProcessRunning :: "process_table \<Rightarrow> nat \<Rightarrow> bool" where
  "isProcessRunning tbl p =
     (case process_kill tbl p Signal_0 of
        Delivered \<Rightarrow> True
      | ESRCH \<Rightarrow> False
      | EPERM \<Rightarrow> False)"

datatype job_status = Pending | Running | Completed | Failed | Cancelled

record JobStatus =
  jobId :: string
  status :: job_status
  createdAt :: string
  startedAt :: "string option"
  completedAt :: "string option"
  error :: "string option"
  pid :: "nat option"
  workdir :: jsval

text \<open>
  The global \<^verbatim>\<open>jobsStore\<close>: an object keyed by job id, as the list of its own entries in
  insertion order (the order of \<^verbatim>\<open>Object.keys\<close> and \<^verbatim>\<open>Object.values\<close>). An assignment
  \<^verbatim>\<open>jobs[jobId] = r\<close> is \<open>AList.update jobId r\<close>: it replaces the entry in place or appends
  a new one. The ids looked up are job ids, not names inherited from \<^verbatim>\<open>Object.prototype\<close>.
\<close>

type_synonym jobs_store = "(string \<times> JobStatus) list"

text \<open>\<^verbatim>\<open>job.pid\<close> as a condition: a recorded, non-zero process id.\<close>

fun truthy_pid :: "nat option \<Rightarrow> bool" where
  "truthy_pid None = False"
| "truthy_pid (Some p) = (p \<noteq> 0)"

text \<open>
  \<^verbatim>\<open>updateJobStatus\<close>, at time \<open>now\<close> (the value of \<^verbatim>\<open>new Date().toISOString()\<close>; a
  request handler other than \<^verbatim>\<open>POST\<close> is given one reading of the clock and one view of the
  process table). The copy
  beside \<^verbatim>\<open>GET /api/jobs/[jobId]\<close> guards against an absent job; the copy beside
  \<^verbatim>\<open>GET /api/jobs\<close> is only called on the keys of the store.
\<close>

definition updateJobStatus :: "process_table \<Rightarrow> string \<Rightarrow> string \<Rightarrow> jobs_store \<Rightarrow> jobs_store" where
  "updateJobStatus tbl now jid jobs =
     (case map_of jobs jid of
        None \<Rightarrow> jobs
      | Some job \<Rightarrow>
          (case pid job of
             None \<Rightarrow> jobs
           | Some p \<Rightarrow>
               if status job = Running \<and> truthy_pid (Some p) then
                 (if \<not> isProcessRunning tbl p
                  then AList.update jid (job\<lparr>status := Completed, completedAt := Some now\<rparr>) jobs
                  else jobs)
               else jobs))"

text \<open>
  \<^verbatim>\<open>generateUUID\<close>: sixteen draws \<^verbatim>\<open>Math.floor(Math.random() * 256)\<close>, each printed by
  \<^verbatim>\<open>toString(16).padStart(2, '0')\<close>, joined. The random source is the function giving the
  byte of the \<open>i\<close>-th draw.
\<close>

definition hex_digit :: "nat \<Rightarrow> char" where
  "hex_digit d = ''0123456789abcdef'' ! d"

fun toString16 :: "nat \<Rightarrow> string" where
  "toString16 n = (if n < 16 then [hex_digit n] else toString16 (n div 16) @ [hex_digit (n mod 16)])"

declare toString16.simps [simp del]

definition padStart :: "nat \<Rightarrow> char \<Rightarrow> string \<Rightarrow> string" where
  "padStart n c s = replicate (n - length s) c @ s"

definition generateUUID :: "(nat \<Rightarrow> 8 word) \<Rightarrow> string" where
  "generateUUID random =
     concat (map (\<lambda>i. padStart 2 (CHR ''0'') (toString16 (unat (random i)))) [0..<16])"

text \<open>
  What a call of \<^verbatim>\<open>POST /api/jobs\<close> draws from its environment: the random bytes, the clock
  read in \<^verbatim>\<open>POST\<close> and the clock read in \<^verbatim>\<open>runJob\<close>, whether creating the temp directory and
  writing the two temp files succeeds (otherwise \<^verbatim>\<open>fs\<close> throws), the default project root,
  and what \<^verbatim>\<open>exec\<close> does: it throws, or returns a child whose \<^verbatim>\<open>pid\<close> is a number or
  \<^verbatim>\<open>undefined\<close>. The temp files and the log stream themselves are outside the model.
\<close>

datatype launch_result = Exec_throws | Child "nat option"

record post_env =
  random :: "nat \<Rightarrow> 8 word"
  created_now :: string
  started_now :: string
  temp_files_written :: bool
  default_project_root :: string
  launch :: launch_result

datatype outcome = Returned | Thrown

text \<open>
  \<^verbatim>\<open>runJob\<close>, up to its return or the first exception. It is called by \<^verbatim>\<open>POST\<close> only, right
  after the record of \<open>jid\<close> was stored, so the record exists; the case of an absent record
  leaves the store alone. The callback given to \<^verbatim>\<open>exec\<close> runs later, as \<open>exit_callback\<close>.
\<close>

definition runJob :: "post_env \<Rightarrow> string \<Rightarrow> jsval \<Rightarrow> jobs_store \<Rightarrow> outcome \<times> jobs_store" where
  "runJob env jid wd jobs =
     (case map_of jobs jid of
        None \<Rightarrow> (Returned, jobs)
      | Some job \<Rightarrow>
          (let running = job\<lparr>status := Running, startedAt := Some (started_now env)\<rparr>;
               jobs1 = AList.update jid running jobs
           in if \<not> temp_files_written env then (Thrown, jobs1)
              else
                (let projectRoot = (if truthy wd then wd else Some (JStr (default_project_root env)));
                     with_workdir = running\<lparr>workdir := projectRoot\<rparr>;
                     jobs2 = AList.update jid with_workdir jobs1
                 in case launch env of
                      Exec_throws \<Rightarrow> (Thrown, jobs2)
                    | Child p \<Rightarrow>
                        (if truthy_pid p
                         then (Returned, AList.update jid (with_workdir\<lparr>pid := p\<rparr>) jobs2)
                         else (Returned, jobs2)))))"

text \<open>
  The callback of \<^verbatim>\<open>exec\<close>, run when the worker process has exited: \<open>err\<close> is the message of
  the error \<^verbatim>\<open>exec\<close> reports (a non-zero exit code, a signal, a failed launch) or \<open>None\<close>
  when there is none. The callback exists only for a job whose record was stored.
\<close>

definition exit_callback :: "string option \<Rightarrow> string \<Rightarrow> string \<Rightarrow> jobs_store \<Rightarrow> jobs_store" where
  "exit_callback err now jid jobs =
     (case map_of jobs jid of
        None \<Rightarrow> jobs
      | Some job \<Rightarrow>
          (case err of
             Some msg \<Rightarrow>
               AList.update jid (job\<lparr>status := Failed, error := Some msg, completedAt := Some now\<rparr>) jobs
           | None \<Rightarrow>
               AList.update jid (job\<lparr>status := Completed, completedAt := Some now\<rparr>) jobs))"

datatype body = Job JobStatus | Jobs "JobStatus list" | Error_message string

datatype response = Response nat body

fun code :: "response \<Rightarrow> nat" where
  "code (Response c b) = c"

fun payload :: "response \<Rightarrow> body" where
  "payload (Response c b) = b"

text \<open>
  \<^verbatim>\<open>POST /api/jobs\<close>. The body is \<open>None\<close> when \<^verbatim>\<open>request.json()\<close> rejects; reading a field of
  a \<^verbatim>\<open>null\<close> body throws; both end in the handler's \<^verbatim>\<open>catch\<close>, as an exception of \<^verbatim>\<open>runJob\<close>
  does.
\<close>

definition POST :: "post_env \<Rightarrow> jsval \<Rightarrow> jobs_store \<Rightarrow> response \<times> jobs_store" where
  "POST env request_body jobs =
     (case request_body of
        None \<Rightarrow> (Response 500 (Error_message ''Failed to submit job''), jobs)
      | Some b \<Rightarrow>
          if b = JNull then (Response 500 (Error_message ''Failed to submit job''), jobs)
          else if \<not> truthy (get_prop b ''agent_worker_task'') then
            (Response 400 (Error_message ''Missing required fields: agent_worker_task and config''), jobs)
          else if \<not> truthy (get_prop b ''config'') then
            (Response 400 (Error_message ''Missing required fields: agent_worker_task and config''), jobs)
          else
            (let jid = generateUUID (random env);
                 jobs0 = AList.update jid
                   \<lparr> jobId = jid, status = Pending, createdAt = created_now env,
                     startedAt = None, completedAt = None, error = None, pid = None,
                     workdir = None \<rparr> jobs
             in case runJob env jid (get_prop b ''workdir'') jobs0 of
                  (Thrown, jobs') \<Rightarrow> (Response 500 (Error_message ''Failed to submit job''), jobs')
                | (Returned, jobs') \<Rightarrow>
                    (case map_of jobs' jid of
                       None \<Rightarrow> (Response 500 (Error_message ''Failed to submit job''), jobs')
                     | Some job \<Rightarrow> (Response 201 (Job job), jobs'))))"

text \<open>\<^verbatim>\<open>GET /api/jobs\<close>: reconcile every key of the store, then list the values.\<close>

definition GET_jobs :: "process_table \<Rightarrow> string \<Rightarrow> jobs_store \<Rightarrow> response \<times> jobs_store" where
  "GET_jobs tbl now jobs =
     (let jobs' = foldl (\<lambda>js jid. updateJobStatus tbl now jid js) jobs (map fst jobs)
      in (Response 200 (Jobs (map snd jobs')), jobs'))"

text \<open>\<^verbatim>\<open>GET /api/jobs/[jobId]\<close>\<close>

definition GET_job :: "process_table \<Rightarrow> string \<Rightarrow> string \<Rightarrow> jobs_store \<Rightarrow> response \<times> jobs_store" where
  "GET_job tbl now jid jobs =
     (case map_of jobs jid of
        None \<Rightarrow> (Response 404 (Error_message ''Job not found''), jobs)
      | Some job \<Rightarrow>
          (let jobs' = updateJobStatus tbl now jid jobs
           in case map_of jobs' jid of
                None \<Rightarrow> (Response 500 (Error_message ''Failed to get job status''), jobs')
              | Some job' \<Rightarrow> (Response 200 (Job job'), jobs')))"

text \<open>
  \<^verbatim>\<open>DELETE /api/jobs/[jobId]\<close>. The third component lists the process ids that
  \<^verbatim>\<open>process.kill(pid)\<close> was called on with the default signal \<^verbatim>\<open>SIGTERM\<close>.
\<close>

definition DELETE :: "process_table \<Rightarrow> string \<Rightarrow> string \<Rightarrow> jobs_store \<Rightarrow> response \<times> jobs_store \<times> nat list" where
  "DELETE tbl now jid jobs =
     (case map_of jobs jid of
        None \<Rightarrow> (Response 404 (Error_message ''Job not found''), jobs, [])
      | Some job \<Rightarrow>
          (case (if status job = Running \<and> truthy_pid (pid job)
                 then (case pid job of
                         None \<Rightarrow> (jobs, [])
                       | Some p \<Rightarrow>
                           (case process_kill tbl p SIGTERM of
                              Delivered \<Rightarrow>
                                (AList.update jid (job\<lparr>status := Cancelled, completedAt := Some now\<rparr>) jobs, [p])
                            | ESRCH \<Rightarrow> (updateJobStatus tbl now jid jobs, [p])
                            | EPERM \<Rightarrow> (updateJobStatus tbl now jid jobs, [p])))
                 else (jobs, []))
           of (jobs', killed) \<Rightarrow>
             (case map_of jobs' jid of
                None \<Rightarrow> (Response 500 (Error_message ''Failed to cancel job''), jobs', killed)
              | Some job' \<Rightarrow> (Response 200 (Job job'), jobs', killed))))"

text \<open>The operations that reach the job store, and a run of them from left to right.\<close>

datatype operation =
    Submit post_env jsval
  | Worker_exit string "string option" string
  | Get string process_table string
  | List_jobs process_table string
  | Cancel string process_table string

fun apply_operation :: "jobs_store \<Rightarrow> operation \<Rightarrow> jobs_store" where
  "apply_operation jobs (Submit env b) = snd (POST env b jobs)"
| "apply_operation jobs (Worker_exit jid err now) = exit_callback err now jid jobs"
| "apply_operation jobs (Get jid tbl now) = snd (GET_job tbl now jid jobs)"
| "apply_operation jobs (List_jobs tbl now) = snd (GET_jobs tbl now jobs)"
| "apply_operation jobs (Cancel jid tbl now) = fst (snd (DELETE tbl now jid jobs))"

definition status_of :: "jobs_store \<Rightarrow> string \<Rightarrow> job_status option" where
  "status_of jobs jid = map_option status (map_of jobs jid)"

section \<open>Notions used to state the properties\<close>

text \<open>
  A line is a metadata line when it parses to a value whose \<^verbatim>\<open>type\<close> is \<^verbatim>\<open>'metadata'\<close>; it is a
  valid entry line when it parses to a value that is not a metadata value and whose
  \<^verbatim>\<open>entry_type\<close> is \<^verbatim>\<open>'message'\<close>, \<^verbatim>\<open>'thinking'\<close> or \<^verbatim>\<open>'system_event'\<close>. The retained entries
  of a log are the values of its valid entry lines, in file order.
\<close>

definition metadata_line :: "line \<Rightarrow> bool" where
  "metadata_line l = (case l of None \<Rightarrow> False | Some e \<Rightarrow> is_metadata e)"

definition entry_line :: "line \<Rightarrow> bool" where
  "entry_line l = (case l of None \<Rightarrow> False | Some e \<Rightarrow> \<not> is_metadata e \<and> is_entry e)"

definition retained :: "line list \<Rightarrow> json list" where
  "retained ls = map the (filter entry_line ls)"

text \<open>The message or detail text of an error-bearing system event, as the loop computes it.\<close>

definition error_text :: "json \<Rightarrow> err_text" where
  "error_text entry = error_of (opt_prop (get_prop entry ''data'') ''details'')"





definition terminal :: "job_status \<Rightarrow> bool" where
  "terminal st = (st = Completed \<or> st = Failed \<or> st = Cancelled)"

section \<open>Sample inputs\<close>

text \<open>Log lines in the format the agent worker writes.\<close>

definition metadata_entry :: "string \<Rightarrow> string \<Rightarrow> json" where
  "metadata_entry sid start =
     JObj [(''type'', JStr ''metadata''), (''session_id'', JStr sid), (''start_time'', JStr start)]"

definition message_entry :: "string \<Rightarrow> string \<Rightarrow> json" where
  "message_entry ts txt =
     JObj [(''entry_type'', JStr ''message''), (''timestamp'', JStr ts),
           (''data'', JObj [(''role'', JStr ''assistant''), (''content'', JStr txt)])]"

definition error_event :: "string \<Rightarrow> string \<Rightarrow> json" where
  "error_event ts msg =
     JObj [(''entry_type'', JStr ''system_event''), (''timestamp'', JStr ts),
           (''data'', JObj [(''type'', JStr ''error''),
                            (''details'', JObj [(''message'', JStr msg)])])]"

text \<open>An error event whose \<^verbatim>\<open>data\<close> has no \<^verbatim>\<open>details\<close> (the field is optional in \<^verbatim>\<open>Entry\<close>).\<close>

definition bare_error_event :: "string \<Rightarrow> json" where
  "bare_error_event ts =
     JObj [(''entry_type'', JStr ''system_event''), (''timestamp'', JStr ts),
           (''data'', JObj [(''type'', JStr ''error'')])]"

definition sample_log :: "line list" where
  "sample_log =
     [Some (metadata_entry ''s1'' ''2025-01-01T00:00:00.000Z''),
      Some (message_entry ''2025-01-01T00:00:01.000Z'' ''hello''),
      Some (error_event ''2025-01-01T00:00:02.000Z'' ''boom'')]"

definition two_errors_log :: "line list" where
  "two_errors_log =
     [Some (metadata_entry ''s1'' ''2025-01-01T00:00:00.000Z''),
      Some (error_event ''2025-01-01T00:00:01.000Z'' ''boom''),
      Some (error_event ''2025-01-01T00:00:02.000Z'' ''late'')]"

definition clobbered_log :: "line list" where
  "clobbered_log =
     [Some (metadata_entry ''s1'' ''2025-01-01T00:00:00.000Z''),
      Some (error_event ''2025-01-01T00:00:01.000Z'' ''boom''),
      Some (bare_error_event ''2025-01-01T00:00:02.000Z'')]"

definition two_metadata_log :: "line list" where
  "two_metadata_log =
     [Some (metadata_entry ''s1'' ''2025-01-01T00:00:00.000Z''),
      Some (message_entry ''2025-01-01T00:00:01.000Z'' ''hello''),
      Some (metadata_entry ''s2'' ''2025-01-02T00:00:00.000Z'')]"






text \<open>A submission (the one of Example A), the same without \<^verbatim>\<open>config\<close>, and an environment
  in which the worker starts with process id 4242.\<close>

definition sample_random :: "nat \<Rightarrow> 8 word" where
  "sample_random i = word_of_nat i"

definition sample_id :: string where
  "sample_id = ''000102030405060708090a0b0c0d0e0f''"

definition sample_env :: post_env where
  "sample_env =
     \<lparr> random = sample_random,
       created_now = ''2025-01-01T00:00:00.000Z'',
       started_now = ''2025-01-01T00:00:00.001Z'',
       temp_files_written = True,
       default_project_root = ''/srv/agentic-mcp-client'',
       launch = Child (Some 4242) \<rparr>"

definition sample_submission :: json where
  "sample_submission =
     JObj [(''agent_worker_task'', JObj [(''task'', JStr ''x''), (''model'', JStr ''m'')]),
           (''config'', JObj [])]"


definition sample_job :: JobStatus where
  "sample_job =
     \<lparr> jobId = sample_id, status = Running,
       createdAt = ''2025-01-01T00:00:00.000Z'',
       startedAt = Some ''2025-01-01T00:00:00.001Z'',
       completedAt = None, error = None, pid = Some 4242,
       workdir = Some (JStr ''/srv/agentic-mcp-client'') \<rparr>"

definition finished_job :: JobStatus where
  "finished_job =
     \<lparr> jobId = sample_id, status = Completed,
       createdAt = ''2025-01-01T00:00:00.000Z'',
       startedAt = Some ''2025-01-01T00:00:00.001Z'',
       completedAt = Some ''2025-01-01T00:00:09.000Z'', error = None, pid = Some 4242,
       workdir = Some (JStr ''/srv/agentic-mcp-client'') \<rparr>"

text \<open>
  Two runs on one job: the worker is cancelled and its exit callback fires afterwards
  with the error \<^verbatim>\<open>exec\<close> reports for a killed child; and the job is reconciled to completed
  by a listing that finds the process gone, before the exit callback reports a failure.
\<close>

definition exit_after_cancel :: "operation list" where
  "exit_after_cancel =
     [Submit sample_env (Some sample_submission),
      Cancel sample_id [(4242, Own)] ''2025-01-01T00:00:05.000Z'',
      Worker_exit sample_id (Some ''Command failed: uv run agentic_mcp_client/agent_worker/run.py'')
        ''2025-01-01T00:00:05.010Z'']"

definition exit_after_reconciliation :: "operation list" where
  "exit_after_reconciliation =
     [Submit sample_env (Some sample_submission),
      List_jobs [] ''2025-01-01T00:00:05.000Z'',
      Worker_exit sample_id (Some ''Command failed: uv run agentic_mcp_client/agent_worker/run.py'')
        ''2025-01-01T00:00:05.010Z'']"

section \<open>The session log reader\<close>

lemmas sample_defs = sample_log_def two_errors_log_def clobbered_log_def two_metadata_log_def
  metadata_entry_def message_entry_def error_event_def bare_error_event_def

lemmas reader_defs = is_metadata_def is_entry_def has_entry_type_def system_event_of_type_def
  error_of_def derive_status_def metadata_line_def entry_line_def error_text_def

lemma is_metadata_not_null [simp]: "\<not> is_metadata JNull"
  by (simp add: is_metadata_def)

lemma is_entry_not_null [simp]: "\<not> is_entry JNull"
  by (simp add: is_entry_def has_entry_type_def)

lemma is_metadata_truthy: "is_metadata e \<Longrightarrow> truthy (Some e)"
  by (cases e) (simp_all add: is_metadata_def)

text \<open>One iteration of the loop, by the kind of the line.\<close>

lemma scan_line_cases:
  "scan_line (msgs, md, err) l =
     (if metadata_line l then (msgs, l, err)
      else if entry_line l then
        (msgs @ [the l], md,
         if system_event_of_type ''error'' (the l) then error_text (the l) else err)
      else (msgs, md, err))"
  by (cases "((msgs, md, err), l)" rule: scan_line.cases)
     (auto simp: metadata_line_def entry_line_def error_text_def)

text \<open>The three variables after the loop: \<open>messages\<close> holds the retained entries in file
  order, \<open>metadata\<close> the last metadata line, \<open>error\<close> the text of the last error event.\<close>

lemma scan_messages:
  "fst (foldl scan_line (msgs, md, err) ls) = msgs @ retained ls"
proof (induction ls arbitrary: msgs md err)
  case Nil
  then show ?case by (simp add: retained_def)
next
  case (Cons l ls)
  show ?case
    by (simp only: foldl_Cons scan_line_cases)
       (auto simp: Cons.IH retained_def metadata_line_def entry_line_def split: option.splits)
qed

lemma scan_metadata:
  "fst (snd (foldl scan_line (msgs, md, err) ls)) =
     (if filter metadata_line ls = [] then md else last (filter metadata_line ls))"
proof (induction ls arbitrary: msgs md err)
  case Nil
  then show ?case by simp
next
  case (Cons l ls)
  show ?case
    by (simp only: foldl_Cons scan_line_cases) (auto simp: Cons.IH)
qed

lemma scan_error:
  "snd (snd (foldl scan_line (msgs, md, err) ls)) =
     (let es = filter (system_event_of_type ''error'') (retained ls)
      in if es = [] then err else error_text (last es))"
proof (induction ls arbitrary: msgs md err)
  case Nil
  then show ?case by (simp add: retained_def)
next
  case (Cons l ls)
  show ?case
    by (simp only: foldl_Cons scan_line_cases)
       (auto simp: Cons.IH Let_def retained_def metadata_line_def entry_line_def
             split: option.splits)
qed

lemma last_metadata_line:
  assumes "filter metadata_line ls \<noteq> []"
  shows "\<exists>e. last (filter metadata_line ls) = Some e \<and> is_metadata e"
proof -
  have "last (filter metadata_line ls) \<in> set (filter metadata_line ls)"
    using assms by (rule last_in_set)
  then have "metadata_line (last (filter metadata_line ls))" by simp
  then show ?thesis
    by (cases "last (filter metadata_line ls)") (simp_all add: metadata_line_def)
qed

text \<open>A file without a metadata line yields no record; a file with one yields the record
  built from the last metadata line, the retained entries and the last error text.\<close>

lemma getSessionData_no_metadata:
  assumes "filter metadata_line ls = []"
  shows "getSessionData (Content ls) = Inl No_metadata"
proof -
  obtain msgs md err where st: "foldl scan_line ([], None, No_text) ls = (msgs, md, err)"
    by (cases "foldl scan_line ([], None, No_text) ls") auto
  have "md = None"
    using scan_metadata [of "[]" None No_text ls] assms by (simp add: st)
  then show ?thesis by (simp add: st)
qed

lemma getSessionData_with_metadata:
  assumes "last (filter metadata_line ls) = Some m" and "filter metadata_line ls \<noteq> []"
  shows "getSessionData (Content ls) =
           Inr \<lparr> id_session = get_prop m ''session_id'',
                 status_session = derive_status
                   (let es = filter (system_event_of_type ''error'') (retained ls)
                    in if es = [] then No_text else error_text (last es)) (retained ls),
                 startTime = get_prop m ''start_time'',
                 endTime = (if retained ls \<noteq> [] then get_prop (last (retained ls)) ''timestamp''
                            else None),
                 messages = retained ls,
                 error_session = (let es = filter (system_event_of_type ''error'') (retained ls)
                    in if es = [] then No_text else error_text (last es)) \<rparr>"
proof -
  obtain msgs md err where st: "foldl scan_line ([], None, No_text) ls = (msgs, md, err)"
    by (cases "foldl scan_line ([], None, No_text) ls") auto
  have md: "md = Some m"
    using scan_metadata [of "[]" None No_text ls] assms by (simp add: st)
  have msgs: "msgs = retained ls"
    using scan_messages [of "[]" None No_text ls] by (simp add: st)
  have err: "err = (let es = filter (system_event_of_type ''error'') (retained ls)
                    in if es = [] then No_text else error_text (last es))"
    using scan_error [of "[]" None No_text ls] by (simp add: st)
  from last_metadata_line [OF assms(2)] assms(1) have "is_metadata m" by auto
  then have tr: "truthy (Some m)" by (rule is_metadata_truthy)
  show ?thesis
    by (simp add: st md tr) (simp add: msgs err)
qed

text \<open>An error event that carries details yields a text, and the text is truthy.\<close>

lemma error_of_truthy:
  assumes "details \<noteq> None"
  shows "truthy_err (error_of details)"
  using assms by (auto simp: error_of_def split: option.splits)

lemma sample_log_session:
  "getSessionData (Content sample_log) =
     Inr \<lparr> id_session = Some (JStr ''s1''), status_session = Session_error,
           startTime = Some (JStr ''2025-01-01T00:00:00.000Z''),
           endTime = Some (JStr ''2025-01-01T00:00:02.000Z''),
           messages = [message_entry ''2025-01-01T00:00:01.000Z'' ''hello'',
                       error_event ''2025-01-01T00:00:02.000Z'' ''boom''],
           error_session = Message (JStr ''boom'') \<rparr>"
  by (simp add: sample_defs reader_defs)

text \<open>
  The status is \<open>error\<close> exactly when the variable \<^verbatim>\<open>error\<close> is truthy at the end of the loop,
  whatever completion events the log holds; a completion event decides only when it is not.
\<close>

lemma derive_status_error_first:
  "(derive_status err msgs = Session_error) = truthy_err err"
  by (simp add: derive_status_def)

text \<open>
  C5. A log made of metadata lines and \<open>N\<close> valid entry lines, followed by one line that does
  not parse as JSON, is read without failure, and \<open>messages\<close> holds exactly the \<open>N\<close> entries
  in file order: the malformed line is skipped.
\<close>

theorem malformed_trailing_line_is_skipped:
  assumes "list_all (\<lambda>l. metadata_line l \<or> entry_line l) ls"
    and "list_ex metadata_line ls"
    and "N = length (filter entry_line ls)"
  shows "\<exists>s. getSessionData (Content (ls @ [None])) = Inr s
            \<and> messages s = map the (filter entry_line ls)
            \<and> length (messages s) = N"
proof -
  have ne: "filter metadata_line (ls @ [None]) \<noteq> []"
    using assms(2) by (auto simp: list_ex_iff filter_empty_conv)
  then obtain m where m: "last (filter metadata_line (ls @ [None])) = Some m"
    using last_metadata_line by blast
  have r: "retained (ls @ [None]) = map the (filter entry_line ls)"
    by (simp add: retained_def entry_line_def)
  show ?thesis
    using getSessionData_with_metadata [OF m ne] assms(3)
    by (simp add: r del: getSessionData.simps)
qed

theorem malformed_trailing_line_is_skipped_witness:
  "list_all (\<lambda>l. metadata_line l \<or> entry_line l) sample_log
   \<and> list_ex metadata_line sample_log
   \<and> (\<exists>s. getSessionData (Content (sample_log @ [None])) = Inr s
        \<and> messages s = [message_entry ''2025-01-01T00:00:01.000Z'' ''hello'',
                          error_event ''2025-01-01T00:00:02.000Z'' ''boom'']
        \<and> length (messages s) = 2)"
proof -
  have h1: "list_all (\<lambda>l. metadata_line l \<or> entry_line l) sample_log"
    by (simp add: sample_defs reader_defs)
  have h2: "list_ex metadata_line sample_log"
    by (simp add: sample_defs reader_defs)
  have h3: "(2::nat) = length (filter entry_line sample_log)"
    by (simp add: sample_defs reader_defs)
  have r: "map the (filter entry_line sample_log) =
      [message_entry ''2025-01-01T00:00:01.000Z'' ''hello'',
       error_event ''2025-01-01T00:00:02.000Z'' ''boom'']"
    by (simp add: sample_defs reader_defs)
  show ?thesis
    using malformed_trailing_line_is_skipped [OF h1 h2 h3] h1 h2 by (simp only: r)
qed

text \<open>
  C10. A log with more than one metadata line is read without failure; \<open>id\<close> and \<open>startTime\<close>
  come from the last metadata line in file order, and no metadata value is in \<open>messages\<close>.
\<close>

theorem last_metadata_line_wins:
  assumes "1 < length (filter metadata_line ls)"
    and "last (filter metadata_line ls) = Some m"
  shows "\<exists>s. getSessionData (Content ls) = Inr s
            \<and> id_session s = get_prop m ''session_id''
            \<and> startTime s = get_prop m ''start_time''
            \<and> list_all (\<lambda>e. \<not> is_metadata e) (messages s)"
proof -
  have ne: "filter metadata_line ls \<noteq> []"
    using assms(1) by auto
  have "list_all (\<lambda>e. \<not> is_metadata e) (retained ls)"
    by (auto simp: retained_def list_all_iff entry_line_def split: option.splits)
  then show ?thesis
    using getSessionData_with_metadata [OF assms(2) ne] by (simp del: getSessionData.simps)
qed

theorem last_metadata_line_wins_witness:
  "1 < length (filter metadata_line two_metadata_log)
   \<and> (\<exists>s. getSessionData (Content two_metadata_log) = Inr s
        \<and> id_session s = Some (JStr ''s2'')
        \<and> startTime s = Some (JStr ''2025-01-02T00:00:00.000Z'')
        \<and> list_all (\<lambda>e. \<not> is_metadata e) (messages s))"
proof -
  have h1: "1 < length (filter metadata_line two_metadata_log)"
    by (simp add: sample_defs reader_defs)
  have h2: "last (filter metadata_line two_metadata_log) =
      Some (metadata_entry ''s2'' ''2025-01-02T00:00:00.000Z'')"
    by (simp add: sample_defs reader_defs)
  have p: "get_prop (metadata_entry ''s2'' ''2025-01-02T00:00:00.000Z'') ''session_id''
             = Some (JStr ''s2'')"
    "get_prop (metadata_entry ''s2'' ''2025-01-02T00:00:00.000Z'') ''start_time''
             = Some (JStr ''2025-01-02T00:00:00.000Z'')"
    by (simp_all add: metadata_entry_def)
  show ?thesis
    using last_metadata_line_wins [OF h1 h2] h1 by (simp only: p)
qed

text \<open>
  C4, as amended. When the retained entries of a parsed log contain an error-bearing system
  event and the last of them in file order carries details, the \<open>error\<close> field is the
  message or detail text of that last entry, and it is set: every error event overwrites
  the text of the one before it.
\<close>

theorem error_is_text_of_last_error_event:
  assumes "getSessionData f = Inr s"
    and "filter (system_event_of_type ''error'') (messages s) \<noteq> []"
    and "opt_prop (get_prop (last (filter (system_event_of_type ''error'') (messages s))) ''data'')
           ''details'' \<noteq> None"
  shows "error_session s = error_text (last (filter (system_event_of_type ''error'') (messages s)))
       \<and> truthy_err (error_session s)"
proof (cases f)
  case Unreadable
  with assms(1) show ?thesis by simp
next
  case (Content ls)
  show ?thesis
  proof (cases "filter metadata_line ls = []")
    case True
    from getSessionData_no_metadata [OF True] assms(1) Content show ?thesis
      by (simp del: getSessionData.simps)
  next
    case False
    then obtain m where m: "last (filter metadata_line ls) = Some m"
      using last_metadata_line by blast
    from getSessionData_with_metadata [OF m False] assms Content show ?thesis
      by (auto simp: Let_def error_text_def error_of_truthy simp del: getSessionData.simps)
  qed
qed

theorem error_is_text_of_last_error_event_witness:
  "\<not> isl (getSessionData (Content two_errors_log))
   \<and> filter (system_event_of_type ''error'')
        (messages (projr (getSessionData (Content two_errors_log))))
       = [error_event ''2025-01-01T00:00:01.000Z'' ''boom'',
          error_event ''2025-01-01T00:00:02.000Z'' ''late'']
   \<and> opt_prop (get_prop (error_event ''2025-01-01T00:00:02.000Z'' ''late'') ''data'') ''details''
       = Some (JObj [(''message'', JStr ''late'')])
   \<and> error_session (projr (getSessionData (Content two_errors_log)))
       = error_text (error_event ''2025-01-01T00:00:02.000Z'' ''late'')
   \<and> error_text (error_event ''2025-01-01T00:00:02.000Z'' ''late'') = Message (JStr ''late'')
   \<and> truthy_err (error_session (projr (getSessionData (Content two_errors_log))))"
proof -
  let ?s = "projr (getSessionData (Content two_errors_log))"
  have i: "\<not> isl (getSessionData (Content two_errors_log))"
    by (simp add: sample_defs reader_defs)
  then have h1: "getSessionData (Content two_errors_log) = Inr ?s"
    by (simp del: getSessionData.simps)
  have h2: "filter (system_event_of_type ''error'') (messages ?s)
      = [error_event ''2025-01-01T00:00:01.000Z'' ''boom'',
         error_event ''2025-01-01T00:00:02.000Z'' ''late'']"
    by (simp add: sample_defs reader_defs)
  have h3: "filter (system_event_of_type ''error'') (messages ?s) \<noteq> []"
    by (simp only: h2) simp
  have d: "opt_prop (get_prop (error_event ''2025-01-01T00:00:02.000Z'' ''late'') ''data'') ''details''
       = Some (JObj [(''message'', JStr ''late'')])"
    by (simp add: error_event_def)
  have h4: "opt_prop (get_prop (last (filter (system_event_of_type ''error'') (messages ?s))) ''data'')
           ''details'' \<noteq> None"
    by (simp add: h2 d del: getSessionData.simps)
  have t: "error_text (error_event ''2025-01-01T00:00:02.000Z'' ''late'') = Message (JStr ''late'')"
    by (simp add: sample_defs reader_defs)
  show ?thesis
    using error_is_text_of_last_error_event [OF h1 h3 h4] h2 t i d
    by (simp del: getSessionData.simps)
qed

text \<open>
  C4 as stated fails: with two error events the field holds the text of the second, not
  of the first.
\<close>

theorem error_is_not_text_of_first_error_event:
  "\<not> isl (getSessionData (Content two_errors_log))
   \<and> error_session (projr (getSessionData (Content two_errors_log))) = Message (JStr ''late'')
   \<and> error_text (hd (filter (system_event_of_type ''error'')
        (messages (projr (getSessionData (Content two_errors_log)))))) = Message (JStr ''boom'')"
  by (simp add: sample_defs reader_defs)

text \<open>
  What the reader does derive: a log whose last error event has details is in status
  \<open>error\<close>, whatever completion events it holds; a log without error events is \<open>completed\<close>
  when it holds a completion event and \<open>active\<close> otherwise.
\<close>

lemma status_error_when_last_error_event_has_details:
  assumes "getSessionData f = Inr s"
    and "filter (system_event_of_type ''error'') (messages s) \<noteq> []"
    and "opt_prop (get_prop (last (filter (system_event_of_type ''error'') (messages s))) ''data'')
           ''details'' \<noteq> None"
  shows "status_session s = Session_error"
proof (cases f)
  case Unreadable
  with assms(1) show ?thesis by simp
next
  case (Content ls)
  show ?thesis
  proof (cases "filter metadata_line ls = []")
    case True
    from getSessionData_no_metadata [OF True] assms(1) Content show ?thesis
      by (simp del: getSessionData.simps)
  next
    case False
    then obtain m where m: "last (filter metadata_line ls) = Some m"
      using last_metadata_line by blast
    from getSessionData_with_metadata [OF m False] assms Content show ?thesis
      by (auto simp: Let_def derive_status_def error_text_def error_of_truthy
               simp del: getSessionData.simps)
  qed
qed

lemma status_without_error_events:
  assumes "getSessionData f = Inr s"
    and "filter (system_event_of_type ''error'') (messages s) = []"
  shows "status_session s =
           (if list_ex (system_event_of_type ''completed'') (messages s) then Session_completed
            else Session_active)"
proof (cases f)
  case Unreadable
  with assms(1) show ?thesis by simp
next
  case (Content ls)
  show ?thesis
  proof (cases "filter metadata_line ls = []")
    case True
    from getSessionData_no_metadata [OF True] assms(1) Content show ?thesis
      by (simp del: getSessionData.simps)
  next
    case False
    then obtain m where m: "last (filter metadata_line ls) = Some m"
      using last_metadata_line by blast
    from getSessionData_with_metadata [OF m False] assms Content show ?thesis
      by (auto simp: Let_def derive_status_def simp del: getSessionData.simps)
  qed
qed

text \<open>
  C6. The status is meant to be \<open>error\<close> as soon as a retained system event carries an error.
  On the log below the first error event carries the message \<^verbatim>\<open>boom\<close>, the second has no
  details; the second assignment resets the variable \<^verbatim>\<open>error\<close> to \<^verbatim>\<open>undefined\<close>, and the
  status comes out as \<open>active\<close>.
\<close>

theorem later_error_event_without_details_clears_error_status:
  "\<not> isl (getSessionData (Content clobbered_log))
   \<and> status_session (projr (getSessionData (Content clobbered_log))) = Session_active
   \<and> error_session (projr (getSessionData (Content clobbered_log))) = No_text
   \<and> filter (system_event_of_type ''error'')
        (messages (projr (getSessionData (Content clobbered_log))))
       = [error_event ''2025-01-01T00:00:01.000Z'' ''boom'',
          bare_error_event ''2025-01-01T00:00:02.000Z'']
   \<and> error_text (error_event ''2025-01-01T00:00:01.000Z'' ''boom'') = Message (JStr ''boom'')"
  by (simp add: sample_defs reader_defs)

section \<open>Listing the sessions\<close>

















section \<open>The liveness probe\<close>

text \<open>
  C3, as amended. The probe answers true exactly when the null signal is delivered; it
  answers false when the check fails with no-such-process and also when it fails with
  permission denied: the \<^verbatim>\<open>catch\<close> does not look at the error.
\<close>

theorem isProcessRunning_iff_signal_delivered:
  "isProcessRunning tbl p = (process_kill tbl p Signal_0 = Delivered)"
  by (simp add: isProcessRunning_def split: kill_outcome.splits)

text \<open>C3 as stated fails: for a process of another user the check is denied and the probe
  answers false.\<close>

theorem isProcessRunning_false_on_permission_denied:
  "process_kill [(4242, Foreign)] 4242 Signal_0 = EPERM
   \<and> \<not> isProcessRunning [(4242, Foreign)] 4242"
  by (simp add: isProcessRunning_def process_kill_def)

section \<open>Submitting a job\<close>

lemma toString16_byte_length:
  assumes "n < 256"
  shows "length (toString16 n) = (if n < 16 then 1 else 2)"
proof (cases "n < 16")
  case True
  then show ?thesis by (simp add: toString16.simps)
next
  case False
  with assms have "n div 16 < 16" by simp
  then have "length (toString16 (n div 16)) = 1" by (simp add: toString16.simps)
  with False show ?thesis by (simp add: toString16.simps [of n])
qed

lemma padded_byte_length: "length (padStart 2 c (toString16 (unat (b :: 8 word)))) = 2"
proof -
  have "unat b < 256" using unsigned_less [of b] by simp
  from toString16_byte_length [OF this] show ?thesis by (simp add: padStart_def)
qed

text \<open>A job id has 32 characters, whatever the random source gives.\<close>

lemma generateUUID_length: "length (generateUUID rnd) = 32"
  by (simp add: generateUUID_def length_concat comp_def padded_byte_length sum_list_triv)

text \<open>A job id is made of hexadecimal digits.\<close>

lemma hex_digit_is_hex:
  assumes "d < 16"
  shows "hex_digit d \<in> set ''0123456789abcdef''"
proof -
  have "d < length ''0123456789abcdef''" using assms by simp
  then have "''0123456789abcdef'' ! d \<in> set ''0123456789abcdef''" by (rule nth_mem)
  then show ?thesis by (simp only: hex_digit_def)
qed

lemma toString16_within:
  assumes "\<And>d. d < 16 \<Longrightarrow> hex_digit d \<in> S"
  shows "set (toString16 n) \<subseteq> S"
proof (induction n rule: toString16.induct)
  case (1 n)
  show ?case
  proof (cases "n < 16")
    case True
    then show ?thesis
      using assms [of n] by (simp add: toString16.simps [of n])
  next
    case False
    have "hex_digit (n mod 16) \<in> S" by (rule assms) simp
    with False "1.IH" show ?thesis
      by (simp add: toString16.simps [of n])
  qed
qed

lemma generateUUID_hex: "set (generateUUID rnd) \<subseteq> set ''0123456789abcdef''"
proof -
  define S where "S = set ''0123456789abcdef''"
  have d: "hex_digit d \<in> S" if "d < 16" for d
    unfolding S_def using that by (rule hex_digit_is_hex)
  have z: "CHR ''0'' \<in> S" by (simp add: S_def)
  have "set (padStart 2 (CHR ''0'') (toString16 n)) \<subseteq> S" for n
    using toString16_within [of S n] d z by (auto simp: padStart_def)
  then have "set (generateUUID rnd) \<subseteq> S"
    by (auto simp: generateUUID_def)
  then show ?thesis by (simp only: S_def)
qed

lemma sample_uuid: "generateUUID sample_random = sample_id"
  by code_simp

lemma sample_POST:
  "POST sample_env (Some sample_submission) [] = (Response 201 (Job sample_job), [(sample_id, sample_job)])"
  by (simp add: POST_def runJob_def sample_uuid sample_env_def sample_submission_def sample_job_def)

text \<open>
  C2, as amended. For a submission with both fields present, when the temp files are written
  and \<^verbatim>\<open>exec\<close> returns a child, \<^verbatim>\<open>POST\<close> answers 201 with the stored record of the new job, in
  status \<open>running\<close>: the record was created \<open>pending\<close> and the synchronous call of \<^verbatim>\<open>runJob\<close> has
  moved it to \<open>running\<close> before the answer is made. Its \<open>createdAt\<close> and \<open>startedAt\<close> are set and
  its id is made of 32 hexadecimal digits.
\<close>

theorem POST_valid_submission_returns_running_record:
  assumes "b \<noteq> JNull"
    and "truthy (get_prop b ''agent_worker_task'')"
    and "truthy (get_prop b ''config'')"
    and "temp_files_written env"
    and "launch env \<noteq> Exec_throws"
  shows "\<exists>job. POST env (Some b) jobs = (Response 201 (Job job), snd (POST env (Some b) jobs))
               \<and> map_of (snd (POST env (Some b) jobs)) (jobId job) = Some job
               \<and> jobId job = generateUUID (random env)
               \<and> length (jobId job) = 32
               \<and> set (jobId job) \<subseteq> set ''0123456789abcdef''
               \<and> status job = Running
               \<and> createdAt job = created_now env
               \<and> startedAt job = Some (started_now env)"
  using assms generateUUID_hex [of "random env"]
  by (cases "launch env")
     (auto simp: POST_def runJob_def update_conv' Let_def generateUUID_length)

theorem POST_valid_submission_returns_running_record_witness:
  "sample_submission \<noteq> JNull
   \<and> truthy (get_prop sample_submission ''agent_worker_task'')
   \<and> truthy (get_prop sample_submission ''config'')
   \<and> temp_files_written sample_env \<and> launch sample_env \<noteq> Exec_throws
   \<and> (\<exists>job. POST sample_env (Some sample_submission) []
               = (Response 201 (Job job), snd (POST sample_env (Some sample_submission) []))
            \<and> jobId job = sample_id \<and> length (jobId job) = 32
            \<and> set (jobId job) \<subseteq> set ''0123456789abcdef''
            \<and> status job = Running
            \<and> createdAt job = ''2025-01-01T00:00:00.000Z''
            \<and> startedAt job = Some ''2025-01-01T00:00:00.001Z'')"
proof -
  have h1: "sample_submission \<noteq> JNull"
    by (simp add: sample_submission_def)
  have h2: "truthy (get_prop sample_submission ''agent_worker_task'')"
    by (simp add: sample_submission_def)
  have h3: "truthy (get_prop sample_submission ''config'')"
    by (simp add: sample_submission_def)
  have h4: "temp_files_written sample_env"
    by (simp add: sample_env_def)
  have h5: "launch sample_env \<noteq> Exec_throws"
    by (simp add: sample_env_def)
  have e: "random sample_env = sample_random"
    "created_now sample_env = ''2025-01-01T00:00:00.000Z''"
    "started_now sample_env = ''2025-01-01T00:00:00.001Z''"
    by (simp_all add: sample_env_def)
  show ?thesis
    using POST_valid_submission_returns_running_record [OF h1 h2 h3 h4 h5, of "[]"] h1 h2 h3 h4 h5
    by (simp only: e sample_uuid) blast
qed

text \<open>C2 as stated fails: the answer to the submission of Example A carries the record in
  status \<open>running\<close>, not \<open>pending\<close>.\<close>

theorem POST_response_is_not_pending:
  "code (fst (POST sample_env (Some sample_submission) [])) = 201
   \<and> payload (fst (POST sample_env (Some sample_submission) [])) = Job sample_job
   \<and> status sample_job = Running
   \<and> status sample_job \<noteq> Pending"
  by (simp add: sample_POST) (simp add: sample_job_def)




section \<open>Cancelling a job\<close>

text \<open>
  C8. Cancelling a job that is not running answers 200 with the stored record, leaves the
  store as it was and signals no process; \<^verbatim>\<open>process.kill\<close> is called exactly for a running job
  with a recorded process id.
\<close>

theorem DELETE_not_running_is_noop:
  assumes "map_of jobs jid = Some job"
  shows "(status job \<noteq> Running \<longrightarrow> DELETE tbl now jid jobs = (Response 200 (Job job), jobs, []))
       \<and> snd (snd (DELETE tbl now jid jobs)) =
           (if status job = Running \<and> truthy_pid (pid job) then [the (pid job)] else [])"
  using assms
  by (auto simp: DELETE_def updateJobStatus_def update_conv'
           split: option.splits kill_outcome.splits)

theorem DELETE_not_running_is_noop_witness:
  "map_of [(sample_id, finished_job)] sample_id = Some finished_job
   \<and> status finished_job \<noteq> Running
   \<and> DELETE [(4242, Own)] ''2025-01-01T00:00:10.000Z'' sample_id [(sample_id, finished_job)]
       = (Response 200 (Job finished_job), [(sample_id, finished_job)], [])"
proof -
  have h: "map_of [(sample_id, finished_job)] sample_id = Some finished_job" by simp
  have s: "status finished_job \<noteq> Running" by (simp add: finished_job_def)
  show ?thesis
    using DELETE_not_running_is_noop [OF h, of "[(4242, Own)]" "''2025-01-01T00:00:10.000Z''"] h s
    by simp
qed

section \<open>Terminal states\<close>

text \<open>
  Reconciliation, the two \<^verbatim>\<open>GET\<close> handlers and \<^verbatim>\<open>DELETE\<close> test for \<open>running\<close> before they write
  a status, so they leave a terminal status alone.
\<close>

lemma updateJobStatus_keeps_terminal:
  assumes "status_of jobs jid = Some st" and "terminal st"
  shows "status_of (updateJobStatus tbl now k jobs) jid = Some st"
  using assms
  by (auto simp: updateJobStatus_def status_of_def terminal_def update_conv' split: option.splits)

lemma GET_job_keeps_terminal:
  assumes "status_of jobs jid = Some st" and "terminal st"
  shows "status_of (snd (GET_job tbl now k jobs)) jid = Some st"
  using updateJobStatus_keeps_terminal [OF assms, of tbl now k] assms(1)
  by (auto simp: GET_job_def Let_def split: option.splits)

lemma reconcile_all_keeps_terminal:
  assumes "status_of jobs jid = Some st" and "terminal st"
  shows "status_of (foldl (\<lambda>js k. updateJobStatus tbl now k js) jobs ks) jid = Some st"
  using assms
  by (induction ks arbitrary: jobs) (auto simp: updateJobStatus_keeps_terminal)

lemma GET_jobs_keeps_terminal:
  assumes "status_of jobs jid = Some st" and "terminal st"
  shows "status_of (snd (GET_jobs tbl now jobs)) jid = Some st"
  using reconcile_all_keeps_terminal [OF assms] by (simp add: GET_jobs_def Let_def)

lemma DELETE_keeps_terminal:
  assumes "status_of jobs jid = Some st" and "terminal st"
  shows "status_of (fst (snd (DELETE tbl now k jobs))) jid = Some st"
  using assms updateJobStatus_keeps_terminal [OF assms, of tbl now k]
  by (auto simp: DELETE_def status_of_def terminal_def update_conv'
           split: option.splits kill_outcome.splits if_splits)

text \<open>
  C1. A terminal status is meant to be final. The callback of \<^verbatim>\<open>exec\<close> writes a status
  without the test for \<open>running\<close> that the other writers make: a job cancelled while running
  is \<open>cancelled\<close> after the cancel and \<open>failed\<close> once the exit callback has fired, and a job
  reconciled to \<open>completed\<close> becomes \<open>failed\<close> in the same way.
\<close>

theorem exit_callback_overwrites_terminal_status:
  "status_of (foldl apply_operation [] (take 2 exit_after_cancel)) sample_id = Some Cancelled
   \<and> status_of (foldl apply_operation [] exit_after_cancel) sample_id = Some Failed
   \<and> status_of (foldl apply_operation [] (take 2 exit_after_reconciliation)) sample_id = Some Completed
   \<and> status_of (foldl apply_operation [] exit_after_reconciliation) sample_id = Some Failed"
  by (simp add: exit_after_cancel_def exit_after_reconciliation_def sample_POST sample_job_def
        DELETE_def GET_jobs_def updateJobStatus_def isProcessRunning_def process_kill_def
        exit_callback_def status_of_def)

end
